theory Spec2Isabelle
  imports Complex_Main "HOL-Library.Char_ord" "HOL-Library.List_Lexorder"
begin

section \<open>Data model\<close>

text \<open>
  A data frame cell is a number, a string, the missing marker NaN (\<open>NA\<close>) or the
  Python object None (\<open>PyNone\<close>), which pandas also counts as missing.
  A series is the list of a column's cells, a frame the list of its named columns in
  column order. Frames are read by column name; a name that is absent raises KeyError.
\<close>

datatype cell = Num real | Str string | NA | PyNone

type_synonym series = "cell list"
type_synonym frame = "(string \<times> series) list"

datatype error =
    NotFittedError
  | NameError string
  | KeyError string
  | ZeroDivisionError
  | ValueError string
  | TypeError

definition isna :: "cell \<Rightarrow> bool" where
  "isna c = (c = NA \<or> c = PyNone)"

definition frame_columns :: "frame \<Rightarrow> string list" where
  "frame_columns df = map fst df"

text \<open>\<open>len(df)\<close>: the number of rows, read off the first column.\<close>

definition frame_len :: "frame \<Rightarrow> nat" where
  "frame_len df = (case df of [] \<Rightarrow> 0 | (n, c) # rest \<Rightarrow> length c)"

text \<open>\<open>df[name]\<close>\<close>

definition getitem :: "frame \<Rightarrow> string \<Rightarrow> error + series" where
  "getitem df name = (case map_of df name of None \<Rightarrow> Inl (KeyError name) | Some c \<Rightarrow> Inr c)"

text \<open>\<open>df[[n1, n2, ...]]\<close>: the sub-frame of the listed columns, in the listed order.\<close>

fun getitems :: "frame \<Rightarrow> string list \<Rightarrow> error + frame" where
  "getitems df [] = Inr []"
| "getitems df (n # ns) =
     (case getitem df n of
        Inl e \<Rightarrow> Inl e
      | Inr c \<Rightarrow> (case getitems df ns of Inl e \<Rightarrow> Inl e | Inr rest \<Rightarrow> Inr ((n, c) # rest)))"

text \<open>\<open>series.unique()\<close>: the distinct cells; the missing marker counts as one value.\<close>

definition unique :: "series \<Rightarrow> series" where
  "unique c = rev (remdups (rev c))"

text \<open>
  Modelled from the spec: \<open>get_type_special_no_ag\<close> of \<open>actableai.utils\<close> is not among
  the source files. The spec describes it as a pure function that classifies a column as
  one of numeric, integer or category by inspecting its values. The functions below take
  the classifier as their first argument \<open>gts\<close>; this stand-in is used where a concrete
  classifier is needed: a column of whole numbers is integer, a column of numbers is
  numeric, anything else is category (missing cells are skipped).
\<close>

definition is_whole :: "cell \<Rightarrow> bool" where
  "is_whole c = (case c of Num r \<Rightarrow> r = of_int (floor r) | Str s \<Rightarrow> False | NA \<Rightarrow> True
                | PyNone \<Rightarrow> True)"

definition is_number :: "cell \<Rightarrow> bool" where
  "is_number c = (case c of Num r \<Rightarrow> True | Str s \<Rightarrow> False | NA \<Rightarrow> True
                | PyNone \<Rightarrow> True)"

definition get_type_special_no_ag :: "series \<Rightarrow> string" where
  "get_type_special_no_ag c =
     (if list_all is_whole c then ''integer''
      else if list_all is_number c then ''numeric''
      else ''category'')"

text \<open>
  \<open>type_special = df.apply(gts)\<close> followed by the two column selections that every
  method of the predictor starts with.
\<close>

definition num_cols :: "(series \<Rightarrow> string) \<Rightarrow> frame \<Rightarrow> string list" where
  "num_cols gts df =
     map fst (filter (\<lambda>(n, c). gts c = ''numeric'' \<or> gts c = ''integer'') df)"

definition cat_cols :: "(series \<Rightarrow> string) \<Rightarrow> frame \<Rightarrow> string list" where
  "cat_cols gts df = map fst (filter (\<lambda>(n, c). gts c = ''category'') df)"

section \<open>The intervention effect predictor\<close>

text \<open>
  The wrappers and estimators of the external libraries are values that record the
  arguments they were built with. Temporary model directories, presets and
  hyperparameters are passed through unchanged by the source and are left out.
\<close>

record ag_args =
  num_gpus :: nat
  drop_unique :: bool

datatype wrapper =
    SKLearnTabularWrapper
      (label: string) (problem_type: string)
      (tab_x_w_columns: "string list option") (tab_ag_args: ag_args)
      (holdout_frac: "real option")
  | SKLearnMultilabelWrapper
      (labels: "string list") (problem_types: "string list")
      (ml_x_w_columns: "string list option") (ml_ag_args: ag_args)

datatype featurizer = DMLFeaturizer

datatype dml =
    LinearDML
      (lin_model_t: wrapper) (lin_model_y: wrapper)
      (lin_featurizer: "featurizer option") (lin_cv: int) (lin_discrete_treatment: bool)
  | NonParamDML
      (np_model_t: wrapper) (np_model_y: wrapper) (np_model_final: wrapper)
      (np_featurizer: "featurizer option") (np_cv: int) (np_discrete_treatment: bool)

text \<open>The one-hot encoder: its fitted categories, None before it is fitted.\<close>

datatype one_hot_encoder = OneHotEncoder (categories: "cell list option")

record predictor =
  target :: string
  current_intervention_column :: string
  new_intervention_column :: string
  common_causes :: "string list option"
  causal_cv :: int
  cate_alpha :: "real option"
  p_num_gpus :: nat
  p_drop_unique :: bool
  causal_model :: "dml option"
  outcome_featurizer :: "one_hot_encoder option"

text \<open>\<open>__init__\<close> with the source's defaults for the arguments that are not given.\<close>

definition init ::
  "string \<Rightarrow> string \<Rightarrow> string \<Rightarrow> string list option \<Rightarrow> int option \<Rightarrow> real option \<Rightarrow> predictor"
where
  "init tgt cur new causes cv alpha =
     \<lparr> target = tgt,
       current_intervention_column = cur,
       new_intervention_column = new,
       common_causes = causes,
       causal_cv = (case cv of None \<Rightarrow> 1 | Some k \<Rightarrow> k),
       cate_alpha = alpha,
       p_num_gpus = 0,
       p_drop_unique = True,
       causal_model = None,
       outcome_featurizer = None \<rparr>"

definition ag_args_fit :: "predictor \<Rightarrow> ag_args" where
  "ag_args_fit self = \<lparr> num_gpus = p_num_gpus self, drop_unique = p_drop_unique self \<rparr>"

text \<open>\<open>xw_col = []; if X is not None: xw_col += list(X.columns)\<close>\<close>

definition xw_col :: "frame option \<Rightarrow> string list" where
  "xw_col X = (case X of None \<Rightarrow> [] | Some x \<Rightarrow> frame_columns x)"

subsection \<open>Nuisance model factory\<close>

definition model_t_problem_type :: "(series \<Rightarrow> string) \<Rightarrow> predictor \<Rightarrow> frame \<Rightarrow> string" where
  "model_t_problem_type gts self T =
     (if current_intervention_column self \<in> set (num_cols gts T)
      then ''regression'' else ''multiclass'')"

text \<open>
  \<open>len(T[col].unique()) / len(T)\<close>: true division of two Python integers, which raises
  ZeroDivisionError on an empty frame.
\<close>

definition model_t_holdout_frac ::
  "(series \<Rightarrow> string) \<Rightarrow> predictor \<Rightarrow> frame \<Rightarrow> error + real option"
where
  "model_t_holdout_frac gts self T =
     (if model_t_problem_type gts self T = ''multiclass'' then
        (case getitem T (current_intervention_column self) of
           Inl e \<Rightarrow> Inl e
         | Inr c \<Rightarrow>
             if frame_len T = 0 then Inl ZeroDivisionError
             else Inr (Some (real (length (unique c)) / real (frame_len T))))
      else Inr None)"

definition generate_model_t ::
  "(series \<Rightarrow> string) \<Rightarrow> predictor \<Rightarrow> frame option \<Rightarrow> frame \<Rightarrow> error + wrapper"
where
  "generate_model_t gts self X T =
     (case model_t_holdout_frac gts self T of
        Inl e \<Rightarrow> Inl e
      | Inr hf \<Rightarrow>
          Inr (SKLearnTabularWrapper ''t'' (model_t_problem_type gts self T)
                 (Some (xw_col X)) (ag_args_fit self) hf))"

definition generate_model_y :: "predictor \<Rightarrow> frame option \<Rightarrow> frame \<Rightarrow> wrapper" where
  "generate_model_y self X Y =
     (if length (frame_columns Y) = 1 then
        SKLearnTabularWrapper ''y'' ''regression'' (Some (xw_col X)) (ag_args_fit self) None
      else
        SKLearnMultilabelWrapper (frame_columns Y)
          (replicate (length (frame_columns Y)) ''regression'')
          (Some (xw_col X)) (ag_args_fit self))"

definition generate_model_final :: "predictor \<Rightarrow> frame \<Rightarrow> frame \<Rightarrow> wrapper" where
  "generate_model_final self T Y =
     (if length (frame_columns Y) \<noteq> 1 then
        SKLearnTabularWrapper ''y_res'' ''regression'' (Some (frame_columns T))
          (ag_args_fit self) None
      else
        SKLearnMultilabelWrapper (frame_columns Y)
          (replicate (length (frame_columns Y)) ''regression'')
          None (ag_args_fit self))"

subsection \<open>Causal estimator builder\<close>

text \<open>
  The truth value of \<open>self.common_causes and len(self.common_causes) != 0\<close>: None and
  the empty list are both false.
\<close>

definition has_common_causes :: "predictor \<Rightarrow> bool" where
  "has_common_causes self =
     (case common_causes self of None \<Rightarrow> False | Some cs \<Rightarrow> cs \<noteq> [] \<and> length cs \<noteq> 0)"

definition generate_dml_model ::
  "(series \<Rightarrow> string) \<Rightarrow> predictor \<Rightarrow> wrapper \<Rightarrow> wrapper \<Rightarrow> wrapper \<Rightarrow> frame option \<Rightarrow> frame
     \<Rightarrow> error + dml"
where
  "generate_dml_model gts self model_t model_y model_final X T =
     (case getitem T (current_intervention_column self) of
        Inl e \<Rightarrow> Inl e
      | Inr c \<Rightarrow>
          (let T_type = gts c in
           if has_common_causes self
              \<or> cate_alpha self \<noteq> None
              \<or> (T_type = ''categorical'' \<and> length (unique c) > 2)
           then
             Inr (LinearDML model_t model_y
                    (if common_causes self = None \<or> length (the (common_causes self)) = 0
                     then None else Some DMLFeaturizer)
                    (causal_cv self) (T_type = ''categorical''))
           else
             Inr (NonParamDML model_t model_y model_final
                    (if X = None then None else Some DMLFeaturizer)
                    (causal_cv self) (T_type = ''categorical''))))"

definition is_linear :: "dml \<Rightarrow> bool" where
  "is_linear m = (case m of LinearDML a b c d e \<Rightarrow> True | NonParamDML a b c d e f \<Rightarrow> False)"

definition is_multilabel :: "wrapper \<Rightarrow> bool" where
  "is_multilabel w =
     (case w of SKLearnTabularWrapper a b c d e \<Rightarrow> False | SKLearnMultilabelWrapper a b c d \<Rightarrow> True)"

subsection \<open>Outcome encoder\<close>

text \<open>
  The value of \<open>scipy.special.logit\<close> on a float: the log-odds inside the open unit
  interval, minus and plus infinity at 0 and 1, and not-a-number outside \<open>[0, 1]\<close> and on
  a missing value. A string or None cell is not a float and raises TypeError.
\<close>

datatype xreal = NegInf | Fin real | PosInf | NaN

definition logit :: "cell \<Rightarrow> error + xreal" where
  "logit c =
     (case c of
        Num p \<Rightarrow>
          Inr (if p = 0 then NegInf
               else if p = 1 then PosInf
               else if 0 < p \<and> p < 1 then Fin (ln (p / (1 - p)))
               else NaN)
      | Str s \<Rightarrow> Inl TypeError
      | NA \<Rightarrow> Inr NaN
      | PyNone \<Rightarrow> Inl TypeError)"

fun traverse :: "('a \<Rightarrow> error + 'b) \<Rightarrow> 'a list \<Rightarrow> error + 'b list" where
  "traverse f [] = Inr []"
| "traverse f (x # xs) =
     (case f x of
        Inl e \<Rightarrow> Inl e
      | Inr y \<Rightarrow> (case traverse f xs of Inl e \<Rightarrow> Inl e | Inr ys \<Rightarrow> Inr (y # ys)))"

text \<open>
  \<open>DataFrame.clip(lower, upper)\<close> with two scalar bounds: pandas orders the bounds,
  caps at the upper one, then at the lower one, and leaves a missing value missing.
\<close>

definition clip :: "real \<Rightarrow> real \<Rightarrow> xreal \<Rightarrow> cell" where
  "clip lower upper v =
     (let lo = min lower upper; hi = max lower upper in
      case v of
        NaN \<Rightarrow> NA
      | NegInf \<Rightarrow> Num lo
      | PosInf \<Rightarrow> Num hi
      | Fin r \<Rightarrow> (let y = (if r \<le> hi then r else hi) in Num (if lo \<le> y then y else lo)))"

definition logit_clip_series :: "real \<Rightarrow> real \<Rightarrow> series \<Rightarrow> error + series" where
  "logit_clip_series lower upper c =
     (case traverse logit c of Inl e \<Rightarrow> Inl e | Inr vs \<Rightarrow> Inr (map (clip lower upper) vs))"

text \<open>\<open>pd.DataFrame(logit(Y)).clip(lower, upper)\<close>, column by column.\<close>

definition logit_clip :: "real \<Rightarrow> real \<Rightarrow> frame \<Rightarrow> error + frame" where
  "logit_clip lower upper Y =
     traverse (\<lambda>(n, c). case logit_clip_series lower upper c of
                           Inl e \<Rightarrow> Inl e | Inr c' \<Rightarrow> Inr (n, c')) Y"

text \<open>
  \<open>OneHotEncoder(sparse=False, handle_unknown="ignore").fit_transform\<close> on a one-column
  frame: the categories are the sorted distinct values with None and NaN last
  (strings and numbers do not compare: TypeError), an empty column is rejected, and the
  result has one 0/1 column per category. \<open>pd.DataFrame\<close> then names the columns
  0, 1, 2, ...
\<close>

definition digit_char :: "nat \<Rightarrow> char" where
  "digit_char d = ''0123456789'' ! d"

function str_nat :: "nat \<Rightarrow> string" where
  "str_nat n = (if 10 \<le> n then str_nat (n div 10) else []) @ [digit_char (n mod 10)]"
  by pat_completeness auto
termination
  by (relation "measure id") auto

declare str_nat.simps [simp del]

definition sorted_categories :: "series \<Rightarrow> error + cell list" where
  "sorted_categories c =
     (let strs = [s. Str s \<leftarrow> c];
          nums = [r. Num r \<leftarrow> c];
          tail = (if PyNone \<in> set c then [PyNone] else [])
                 @ (if NA \<in> set c then [NA] else [])
      in if c = [] then Inl (ValueError ''Found array with 0 sample(s)'')
         else if strs \<noteq> [] \<and> nums \<noteq> [] then Inl TypeError
         else Inr (map Str (sort (remdups strs)) @ map Num (sort (remdups nums)) @ tail))"

definition indicator :: "cell \<Rightarrow> cell \<Rightarrow> cell" where
  "indicator cat x = Num (if x = cat then 1 else 0)"

definition one_hot :: "cell list \<Rightarrow> series \<Rightarrow> frame" where
  "one_hot cats c =
     map (\<lambda>(j, cat). (str_nat j, map (indicator cat) c)) (enumerate 0 cats)"

definition fit_transform :: "frame \<Rightarrow> error + (one_hot_encoder \<times> frame)" where
  "fit_transform f =
     (case f of
        [(n, c)] \<Rightarrow>
          (case sorted_categories c of
             Inl e \<Rightarrow> Inl e
           | Inr cats \<Rightarrow> Inr (OneHotEncoder (Some cats), one_hot cats c))
      | _ \<Rightarrow> Inl (ValueError ''expected one column''))"

text \<open>
  The outcome part of \<open>_generate_TYX\<close>. It returns the encoded outcome together with the
  value of \<open>self.outcome_featurizer\<close> afterwards: the attribute is assigned a new
  encoder before the encoding of a non-numeric target is attempted. The two clip bounds
  \<open>LOGIT_MIN_VALUE\<close> and \<open>LOGIT_MAX_VALUE\<close> come from a configuration module that is not
  among the source files and are arguments here.
\<close>

definition encode_outcome ::
  "(series \<Rightarrow> string) \<Rightarrow> real \<Rightarrow> real \<Rightarrow> predictor \<Rightarrow> frame \<Rightarrow> frame option
     \<Rightarrow> (error + frame) \<times> one_hot_encoder option"
where
  "encode_outcome gts LOGIT_MIN_VALUE LOGIT_MAX_VALUE self df target_proba =
     (if target self \<in> set (num_cols gts df) then
        (getitems df [target self], outcome_featurizer self)
      else
        (case target_proba of
           Some P \<Rightarrow>
             (logit_clip LOGIT_MIN_VALUE LOGIT_MAX_VALUE P, Some (OneHotEncoder None))
         | None \<Rightarrow>
             (case getitems df [target self] of
                Inl e \<Rightarrow> (Inl e, Some (OneHotEncoder None))
              | Inr f \<Rightarrow>
                  (case fit_transform f of
                     Inl e \<Rightarrow> (Inl e, Some (OneHotEncoder None))
                   | Inr (enc, M) \<Rightarrow>
                       (logit_clip LOGIT_MIN_VALUE LOGIT_MAX_VALUE M, Some enc)))))"

text \<open>
  \<open>_generate_TYX\<close>: the confounder frame first, then the outcome, then the two treatment
  frames. The predictor is returned with its updated \<open>outcome_featurizer\<close>, also when a
  later step raises.
\<close>

definition select_X :: "predictor \<Rightarrow> frame \<Rightarrow> error + frame option" where
  "select_X self df =
     (if has_common_causes self then
        (case getitems df (the (common_causes self)) of
           Inl e \<Rightarrow> Inl e | Inr x \<Rightarrow> Inr (Some x))
      else Inr None)"

definition generate_TYX ::
  "(series \<Rightarrow> string) \<Rightarrow> real \<Rightarrow> real \<Rightarrow> predictor \<Rightarrow> frame \<Rightarrow> frame option
     \<Rightarrow> (error + frame \<times> frame \<times> frame \<times> frame option) \<times> predictor"
where
  "generate_TYX gts LOGIT_MIN_VALUE LOGIT_MAX_VALUE self df target_proba =
     (case select_X self df of
        Inl e \<Rightarrow> (Inl e, self)
      | Inr X \<Rightarrow>
          (case encode_outcome gts LOGIT_MIN_VALUE LOGIT_MAX_VALUE self df target_proba of
             (r, feat) \<Rightarrow>
               (let self' = self\<lparr>outcome_featurizer := feat\<rparr> in
                case r of
                  Inl e \<Rightarrow> (Inl e, self')
                | Inr Y \<Rightarrow>
                    (case getitems df [current_intervention_column self] of
                       Inl e \<Rightarrow> (Inl e, self')
                     | Inr T0 \<Rightarrow>
                         (case getitems df [new_intervention_column self] of
                            Inl e \<Rightarrow> (Inl e, self')
                          | Inr T1 \<Rightarrow> (Inr (T0, T1, Y, X), self'))))))"

subsection \<open>Fit/predict orchestrator\<close>

text \<open>
  \<open>predict_effect\<close>, statement by statement. The unfitted check comes first. On a fitted
  predictor \<open>_generate_TYX\<close> runs, and the arguments of \<open>self.causal_model.effect\<close> are
  evaluated next: the second one reads the bare name \<open>current_intervention_column\<close>,
  which is neither a local variable of the method nor a name of the module, so Python
  raises NameError there, before the estimator is called. Nothing after that line is
  reached.
\<close>

definition predict_effect ::
  "(series \<Rightarrow> string) \<Rightarrow> real \<Rightarrow> real \<Rightarrow> predictor \<Rightarrow> frame \<Rightarrow> frame option
     \<Rightarrow> (error + frame) \<times> predictor"
where
  "predict_effect gts LOGIT_MIN_VALUE LOGIT_MAX_VALUE self df target_proba =
     (if causal_model self = None then (Inl NotFittedError, self)
      else
        (case generate_TYX gts LOGIT_MIN_VALUE LOGIT_MAX_VALUE self df target_proba of
           (Inl e, self') \<Rightarrow> (Inl e, self')
         | (Inr tyx, self') \<Rightarrow> (Inl (NameError ''current_intervention_column''), self')))"

text \<open>
  \<open>fit\<close> up to the call of the estimator's own \<open>fit\<close>, which belongs to the external
  library: the frames are generated, the three nuisance models and the estimator are
  built, and the estimator is stored in \<open>self.causal_model\<close>.
\<close>

definition fit ::
  "(series \<Rightarrow> string) \<Rightarrow> real \<Rightarrow> real \<Rightarrow> predictor \<Rightarrow> frame \<Rightarrow> frame option
     \<Rightarrow> (error + unit) \<times> predictor"
where
  "fit gts LOGIT_MIN_VALUE LOGIT_MAX_VALUE self df target_proba =
     (case generate_TYX gts LOGIT_MIN_VALUE LOGIT_MAX_VALUE self df target_proba of
        (Inl e, self') \<Rightarrow> (Inl e, self')
      | (Inr (T0, T1, Y, X), self') \<Rightarrow>
          (case generate_model_t gts self' X T0 of
             Inl e \<Rightarrow> (Inl e, self')
           | Inr model_t \<Rightarrow>
               (let model_y = generate_model_y self' X Y;
                    model_final = generate_model_final self' T0 Y
                in case generate_dml_model gts self' model_t model_y model_final X T0 of
                     Inl e \<Rightarrow> (Inl e, self')
                   | Inr cm \<Rightarrow> (Inr (), self'\<lparr>causal_model := Some cm\<rparr>))))"

text \<open>
  The whole of \<open>fit\<close>, its last statement included: once the estimator is stored in
  \<open>self.causal_model\<close>, its own \<open>fit\<close> is called on the values of the outcome, treatment
  and confounder frames. That method belongs to the external library and is the argument
  \<open>estimator_fit\<close>, which gives the exception the call raises, if it raises one. An
  exception there ends \<open>fit\<close> without a return, with the estimator already stored.
\<close>

definition fit_full ::
  "(dml \<Rightarrow> frame \<Rightarrow> frame \<Rightarrow> frame option \<Rightarrow> error option)
     \<Rightarrow> (series \<Rightarrow> string) \<Rightarrow> real \<Rightarrow> real \<Rightarrow> predictor \<Rightarrow> frame \<Rightarrow> frame option
     \<Rightarrow> (error + unit) \<times> predictor"
where
  "fit_full estimator_fit gts LOGIT_MIN_VALUE LOGIT_MAX_VALUE self df target_proba =
     (case generate_TYX gts LOGIT_MIN_VALUE LOGIT_MAX_VALUE self df target_proba of
        (Inl e, self') \<Rightarrow> (Inl e, self')
      | (Inr (T0, T1, Y, X), self') \<Rightarrow>
          (case generate_model_t gts self' X T0 of
             Inl e \<Rightarrow> (Inl e, self')
           | Inr model_t \<Rightarrow>
               (let model_y = generate_model_y self' X Y;
                    model_final = generate_model_final self' T0 Y
                in case generate_dml_model gts self' model_t model_y model_final X T0 of
                     Inl e \<Rightarrow> (Inl e, self')
                   | Inr cm \<Rightarrow>
                       (let fitted = self'\<lparr>causal_model := Some cm\<rparr>
                        in case estimator_fit cm Y T0 X of
                             Some e \<Rightarrow> (Inl e, fitted)
                           | None \<Rightarrow> (Inr (), fitted)))))"



section \<open>Predicates used in the properties\<close>

text \<open>A cell that holds a probability, and a cell that holds a number within two bounds.\<close>

definition is_prob :: "cell \<Rightarrow> bool" where
  "is_prob x = (case x of Num p \<Rightarrow> 0 \<le> p \<and> p \<le> 1 | Str s \<Rightarrow> False | NA \<Rightarrow> False
        | PyNone \<Rightarrow> False)"

definition in_clip_range :: "real \<Rightarrow> real \<Rightarrow> cell \<Rightarrow> bool" where
  "in_clip_range lo hi x =
     (case x of Num r \<Rightarrow> lo \<le> r \<and> r \<le> hi | Str s \<Rightarrow> False | NA \<Rightarrow> False
        | PyNone \<Rightarrow> False)"

definition frame_all :: "(cell \<Rightarrow> bool) \<Rightarrow> frame \<Rightarrow> bool" where
  "frame_all P Y = list_all (\<lambda>(n, c). list_all P c) Y"

text \<open>The supplied class-probability matrix, when there is one, holds probabilities.\<close>

definition valid_proba :: "frame option \<Rightarrow> bool" where
  "valid_proba target_proba =
     (case target_proba of None \<Rightarrow> True | Some P \<Rightarrow> frame_all is_prob P)"

section \<open>Example data\<close>

text \<open>
  A predictor with no common causes and no significance level, and two data sets with
  the columns y, t and t_new: one with a three-level categorical treatment, one all
  numeric.
\<close>

definition example_predictor :: predictor where
  "example_predictor = init ''y'' ''t'' ''t_new'' None None None"

definition example_df_category :: frame where
  "example_df_category =
     [(''y'', [Num 1, Num 2, Num 4]),
      (''t'', [Str ''a'', Str ''b'', Str ''c'']),
      (''t_new'', [Str ''b'', Str ''b'', Str ''b''])]"

definition example_df_numeric :: frame where
  "example_df_numeric =
     [(''y'', [Num 1, Num 2]), (''t'', [Num 0, Num 1]), (''t_new'', [Num 1, Num 1])]"

definition example_df_cat_target :: frame where
  "example_df_cat_target =
     [(''y'', [Str ''no'', Str ''yes'', Str ''no'']),
      (''t'', [Num 0, Num 1, Num 1]),
      (''t_new'', [Num 1, Num 1, Num 1])]"

text \<open>
  An estimator whose own \<open>fit\<close> rejects an outcome with a missing value, a data set whose
  target has one, and the predictor left by fitting the example predictor on the data
  set with the categorical target.
\<close>

definition example_estimator_fit :: "dml \<Rightarrow> frame \<Rightarrow> frame \<Rightarrow> frame option \<Rightarrow> error option" where
  "example_estimator_fit cm Y T X =
     (if frame_all (\<lambda>c. \<not> isna c) Y then None else Some (ValueError ''Input contains NaN''))"

definition example_df_missing_target :: frame where
  "example_df_missing_target =
     [(''y'', [Num 1, NA]), (''t'', [Num 0, Num 1]), (''t_new'', [Num 1, Num 1])]"


section \<open>Bayesian regression task\<close>

text \<open>
  The part of \<open>AAIBayesianRegressionTask.run\<close> that decides how a run ends: the data
  validation, the loop over the priors, and then the fitting work. The validator, the
  polynomial expansion, the tuner and the regression model belong to modules that are not
  among the source files or to external libraries: the validator's results are an
  argument, and the fitting work is recorded as the list of the steps that are started.
\<close>

datatype check_level = CRITICAL | WARNING

record check_result =
  check_name :: string
  level :: check_level
  message :: string

record prior =
  column :: string
  control :: "string option"
  degree :: int
  prior_value :: real

datatype work = ExpandPolynomialCategorical | TrainTestSplit | TuneModel | FitBestModel

datatype task_result =
    FAILURE "check_result list"
  | SUCCESS "string \<rightharpoonup> real" "check_result list"

definition str_int :: "int \<Rightarrow> string" where
  "str_int i = (if 0 \<le> i then str_nat (nat i) else CHR ''-'' # str_nat (nat (- i)))"

text \<open>The key under which a prior's value is stored.\<close>

definition prior_key :: "prior \<Rightarrow> string" where
  "prior_key k =
     (case control k of
        None \<Rightarrow>
          if degree k = 1 then column k
          else column k @ ''^'' @ str_int (degree k)
      | Some ctl \<Rightarrow> column k @ ''_'' @ ctl @ ''^'' @ str_int (degree k))"

definition categorical_prior_error :: error where
  "categorical_prior_error =
     ValueError ''Prior for categorical column can only have polynomial degree of 1''"

text \<open>The loop \<open>for k in priors\<close>: it raises at the first offending prior.\<close>

fun collect_priors :: "prior list \<Rightarrow> (string \<rightharpoonup> real) \<Rightarrow> error + (string \<rightharpoonup> real)" where
  "collect_priors [] priors_values = Inr priors_values"
| "collect_priors (k # ks) priors_values =
     (if control k \<noteq> None \<and> degree k \<noteq> 1 then Inl categorical_prior_error
      else collect_priors ks (priors_values(prior_key k \<mapsto> prior_value k)))"

definition fitting_work :: "int \<Rightarrow> work list" where
  "fitting_work validation_split =
     [ExpandPolynomialCategorical]
     @ (if validation_split > 0 then [TrainTestSplit] else [])
     @ [TuneModel, FitBestModel]"

definition run ::
  "check_result option list \<Rightarrow> prior list option \<Rightarrow> int \<Rightarrow> (error + task_result) \<times> work list"
where
  "run data_validation_results priors validation_split =
     (let failed_checks = [x. Some x \<leftarrow> data_validation_results] in
      if CRITICAL \<in> set (map level failed_checks) then (Inr (FAILURE failed_checks), [])
      else
        (case collect_priors (case priors of None \<Rightarrow> [] | Some ps \<Rightarrow> ps) Map.empty of
           Inl e \<Rightarrow> (Inl e, [])
         | Inr priors_values \<Rightarrow>
             (Inr (SUCCESS priors_values failed_checks), fitting_work validation_split)))"

definition bad_prior :: "prior \<Rightarrow> bool" where
  "bad_prior k = (control k \<noteq> None \<and> degree k \<noteq> 1)"

definition has_critical :: "check_result option list \<Rightarrow> bool" where
  "has_critical rs = (CRITICAL \<in> set (map level [x. Some x \<leftarrow> rs]))"

definition example_bad_prior :: prior where
  "example_bad_prior =
     \<lparr>column = ''colour'', control = Some ''red'', degree = 2, prior_value = 1\<rparr>"

definition example_critical_check :: check_result where
  "example_critical_check =
     \<lparr>check_name = ''ColumnsExistChecker'', level = CRITICAL, message = ''missing column''\<rparr>"

section \<open>Preprocessing utilities\<close>

subsection \<open>Percentage parsing\<close>

text \<open>
  \<open>PercentageTransformer.transform\<close> works on string columns: a cell is a string or
  null. The pattern is
  \<^verbatim>\<open>^[^\S\r\n]*(\d+(?:\.\d+)?)[^\S\r\n]*%[^\S\r\n]*$\<close>:
  blanks other than line breaks, digits with an optional fraction (the captured group),
  blanks, a percent sign, blanks, and the end of the string or a final line feed.
  Every repetition in it is followed by something it cannot match itself, so matching
  greedily from the left decides it. Strings are ASCII here.
\<close>

definition is_blank :: "char \<Rightarrow> bool" where
  "is_blank ch =
     (ch \<in> set [CHR 0x09, CHR 0x0B, CHR 0x0C, CHR 0x1C, CHR 0x1D, CHR 0x1E, CHR 0x1F, CHR 0x20])"

definition is_digit :: "char \<Rightarrow> bool" where
  "is_digit ch = (ch \<in> set ''0123456789'')"

definition extract_percent :: "string \<Rightarrow> string option" where
  "extract_percent s =
     (let s1 = dropWhile is_blank s;
          whole = takeWhile is_digit s1;
          s2 = dropWhile is_digit s1;
          fraction = (case s2 of
                        [] \<Rightarrow> []
                      | ch # r \<Rightarrow> if ch = CHR ''.'' \<and> takeWhile is_digit r \<noteq> []
                                 then ch # takeWhile is_digit r else []);
          s3 = dropWhile is_blank (drop (length fraction) s2)
      in if whole = [] then None
         else (case s3 of
                 [] \<Rightarrow> None
               | ch # r \<Rightarrow>
                   if ch = CHR ''%''
                      \<and> (dropWhile is_blank r = [] \<or> dropWhile is_blank r = [CHR 0x0A])
                   then Some (whole @ fraction) else None))"

text \<open>
  \<open>astype(float)\<close> on the captured text, digits with an optional fraction: the decimal
  value, as a real number (the rounding to a binary float is not modelled).
\<close>

definition digit_val :: "char \<Rightarrow> nat" where
  "digit_val ch = length (takeWhile (\<lambda>d. d \<noteq> ch) ''0123456789'')"

definition dec_val :: "string \<Rightarrow> nat" where
  "dec_val ds = foldl (\<lambda>acc ch. 10 * acc + digit_val ch) 0 ds"

definition py_float :: "string \<Rightarrow> real" where
  "py_float t =
     (let whole = takeWhile is_digit t;
          fraction = drop 1 (dropWhile is_digit t)
      in real (dec_val whole) + real (dec_val fraction) / 10 ^ length fraction)"

text \<open>\<open>x.str.extract(pattern)[0]\<close>: the captured text, null where there is no match.\<close>

definition extracted :: "string option list \<Rightarrow> string option list" where
  "extracted x = map (\<lambda>cell. case cell of None \<Rightarrow> None | Some s \<Rightarrow> extract_percent s) x"

text \<open>\<open>parsed_rate_check = lambda x, min: x.isna().sum() >= min * len(x)\<close>\<close>

definition parsed_rate_check :: "string option list \<Rightarrow> real \<Rightarrow> bool" where
  "parsed_rate_check x min_rate =
     (real (length (filter (\<lambda>e. e = None) x)) \<ge> min_rate * real (length x))"

text \<open>
  A column after \<open>transform\<close>: the string column it was, or a float column with
  \<open>None\<close> for a missing value.
\<close>

datatype pct_column = Untouched "string option list" | Converted "real option list"

definition as_floats :: "string option list \<Rightarrow> real option list" where
  "as_floats x = map (map_option py_float) x"

text \<open>One column of \<open>transform\<close>: replaced by the parsed column unless the check holds.\<close>

definition transform_column :: "string option list \<Rightarrow> pct_column" where
  "transform_column x =
     (if parsed_rate_check (extracted x) (1 / 2) then Untouched x
      else Converted (as_floats (extracted x)))"

definition transform ::
  "(string \<times> string option list) list \<Rightarrow> (string \<times> pct_column) list"
where
  "transform X = map (\<lambda>(n, x). (n, transform_column x)) X"

text \<open>
  The behaviour the specification describes, for comparison: the share of matching cells
  is taken among the non-null cells, and a share of exactly one half converts.
\<close>

definition matches :: "string option list \<Rightarrow> nat" where
  "matches x = length (filter (\<lambda>e. e \<noteq> None) (extracted x))"

definition non_null :: "string option list \<Rightarrow> nat" where
  "non_null x = length (filter (\<lambda>cell. cell \<noteq> None) x)"

definition spec_transform_column :: "string option list \<Rightarrow> pct_column" where
  "spec_transform_column x =
     (if 2 * matches x < non_null x then Untouched x else Converted (as_floats (extracted x)))"

subsection \<open>Imputation\<close>



























section \<open>Properties\<close>

lemma getitem_single: "getitem [(n, c)] n = Inr c"
  by (simp add: getitem_def)

lemma num_cols_simps:
  "num_cols gts [] = []"
  "num_cols gts ((n, c) # df) =
     (if gts c = ''numeric'' \<or> gts c = ''integer'' then n # num_cols gts df
      else num_cols gts df)"
  by (simp_all add: num_cols_def)

lemma cat_cols_simps:
  "cat_cols gts [] = []"
  "cat_cols gts ((n, c) # df) =
     (if gts c = ''category'' then n # cat_cols gts df else cat_cols gts df)"
  by (simp_all add: cat_cols_def)

lemma generate_dml_model_linear_iff:
  assumes "getitem T (current_intervention_column self) = Inr c"
  shows "\<exists>m. generate_dml_model gts self mt my mf X T = Inr m \<and>
             (is_linear m \<longleftrightarrow>
                has_common_causes self \<or> cate_alpha self \<noteq> None
                \<or> (gts c = ''categorical'' \<and> length (unique c) > 2))"
  using assms by (simp add: generate_dml_model_def is_linear_def Let_def)

lemma generate_dml_model_category:
  assumes "getitem T (current_intervention_column self) = Inr c"
    and "gts c = ''category''"
    and "\<not> has_common_causes self" and "cate_alpha self = None"
  shows "generate_dml_model gts self mt my mf X T =
           Inr (NonParamDML mt my mf (if X = None then None else Some DMLFeaturizer)
                  (causal_cv self) False)"
  using assms by (simp add: generate_dml_model_def Let_def)

lemma predict_effect_never_returns:
  "fst (predict_effect gts lo hi self df tp) \<noteq> Inr r"
  by (simp add: predict_effect_def split: prod.splits sum.splits)

lemma example_tags:
  "get_type_special_no_ag [Num 1, Num 2, Num 4] = ''integer''"
  "get_type_special_no_ag [Str ''a'', Str ''b'', Str ''c''] = ''category''"
  "get_type_special_no_ag [Str ''b'', Str ''b'', Str ''b''] = ''category''"
  "get_type_special_no_ag [Num 1, Num 2] = ''integer''"
  "get_type_special_no_ag [Num 0, Num 1] = ''integer''"
  "get_type_special_no_ag [Num 1, Num 1] = ''integer''"
  by (simp_all add: get_type_special_no_ag_def is_whole_def is_number_def)

lemma example_TYX_category:
  "generate_TYX get_type_special_no_ag lo hi example_predictor example_df_category None =
     (Inr ([(''t'', [Str ''a'', Str ''b'', Str ''c''])],
           [(''t_new'', [Str ''b'', Str ''b'', Str ''b''])],
           [(''y'', [Num 1, Num 2, Num 4])], None), example_predictor)"
  by (simp add: generate_TYX_def select_X_def encode_outcome_def has_common_causes_def
      example_predictor_def example_df_category_def init_def num_cols_simps example_tags
      getitem_def)

lemma example_TYX_numeric:
  "generate_TYX get_type_special_no_ag lo hi example_predictor example_df_numeric None =
     (Inr ([(''t'', [Num 0, Num 1])], [(''t_new'', [Num 1, Num 1])],
           [(''y'', [Num 1, Num 2])], None), example_predictor)"
  by (simp add: generate_TYX_def select_X_def encode_outcome_def has_common_causes_def
      example_predictor_def example_df_numeric_def init_def num_cols_simps example_tags
      getitem_def)

lemma example_fit_numeric:
  "fit get_type_special_no_ag lo hi example_predictor example_df_numeric None =
     (Inr (),
      example_predictor\<lparr>causal_model := Some
        (NonParamDML
           (SKLearnTabularWrapper ''t'' ''regression'' (Some [])
              \<lparr>num_gpus = 0, drop_unique = True\<rparr> None)
           (SKLearnTabularWrapper ''y'' ''regression'' (Some [])
              \<lparr>num_gpus = 0, drop_unique = True\<rparr> None)
           (SKLearnMultilabelWrapper [''y''] [''regression''] None
              \<lparr>num_gpus = 0, drop_unique = True\<rparr>)
           None 1 False)\<rparr>)"
  unfolding fit_def example_TYX_numeric
  by (simp add: generate_model_t_def model_t_holdout_frac_def
      model_t_problem_type_def num_cols_simps example_tags generate_model_y_def
      generate_model_final_def generate_dml_model_def getitem_def frame_columns_def
      xw_col_def ag_args_fit_def has_common_causes_def example_predictor_def init_def
      numeral_2_eq_2)

subsection \<open>Estimator selection\<close>

text \<open>
  C1. The claim: the linear estimator is selected exactly when there are common causes,
  a significance level was given, or the treatment column is categorical with more than
  two distinct values; in particular for a three-level categorical treatment with no
  confounders and no significance level. The builder compares the column's class with
  the string "categorical", while the classifier's tag for such a column, the one every
  other method tests, is "category". Fitting the example predictor (no common causes, no
  significance level) on the data set whose treatment column has the three levels a, b,
  c and is listed among the categorical columns stores the non-parametric estimator,
  with the discrete-treatment flag off.
\<close>

theorem C1_three_level_treatment_selects_nonparam:
  "cat_cols get_type_special_no_ag example_df_category = [''t'', ''t_new'']
   \<and> length (unique [Str ''a'', Str ''b'', Str ''c'']) = 3
   \<and> fit get_type_special_no_ag lo hi example_predictor example_df_category None =
       (Inr (),
        example_predictor\<lparr>causal_model := Some
          (NonParamDML
             (SKLearnTabularWrapper ''t'' ''multiclass'' (Some [])
                \<lparr>num_gpus = 0, drop_unique = True\<rparr> (Some 1))
             (SKLearnTabularWrapper ''y'' ''regression'' (Some [])
                \<lparr>num_gpus = 0, drop_unique = True\<rparr> None)
             (SKLearnMultilabelWrapper [''y''] [''regression''] None
                \<lparr>num_gpus = 0, drop_unique = True\<rparr>)
             None 1 False)\<rparr>)"
proof -
  have a: "cat_cols get_type_special_no_ag example_df_category = [''t'', ''t_new'']"
    by (simp add: cat_cols_simps example_df_category_def example_tags)
  have b: "length (unique [Str ''a'', Str ''b'', Str ''c'']) = 3"
    by (simp add: unique_def)
  have c: "unique [Str ''a'', Str ''b'', Str ''c''] = [Str ''a'', Str ''b'', Str ''c'']"
    by (simp add: unique_def)
  have d: "fit get_type_special_no_ag lo hi example_predictor example_df_category None =
       (Inr (),
        example_predictor\<lparr>causal_model := Some
          (NonParamDML
             (SKLearnTabularWrapper ''t'' ''multiclass'' (Some [])
                \<lparr>num_gpus = 0, drop_unique = True\<rparr> (Some 1))
             (SKLearnTabularWrapper ''y'' ''regression'' (Some [])
                \<lparr>num_gpus = 0, drop_unique = True\<rparr> None)
             (SKLearnMultilabelWrapper [''y''] [''regression''] None
                \<lparr>num_gpus = 0, drop_unique = True\<rparr>)
             None 1 False)\<rparr>)"
    unfolding fit_def example_TYX_category
    by (simp add: generate_model_t_def
        model_t_holdout_frac_def model_t_problem_type_def num_cols_simps example_tags
        generate_model_y_def generate_model_final_def generate_dml_model_def getitem_def
        frame_columns_def frame_len_def xw_col_def ag_args_fit_def has_common_causes_def
        example_predictor_def init_def c)
  from a b d show ?thesis by simp
qed

theorem C1_three_level_treatment_selects_nonparam_witness:
  "\<exists>m. causal_model (snd (fit get_type_special_no_ag (-10) 10 example_predictor
                            example_df_category None)) = Some m
       \<and> is_linear m = False"
  using C1_three_level_treatment_selects_nonparam [of "-10" 10]
  by (simp add: is_linear_def)

subsection \<open>Final-stage model and outcome model\<close>

text \<open>
  C10. The final-stage model is the multilabel wrapper exactly when the encoded outcome
  has one column and the single-output tabular wrapper otherwise, which for an outcome
  with at least one column means more than one column; the outcome model makes the
  opposite choice.
\<close>

theorem C10_model_final_opposite_of_model_y:
  "(is_multilabel (generate_model_final self T Y) \<longleftrightarrow> length (frame_columns Y) = 1)
   \<and> (is_multilabel (generate_model_y self X Y) \<longleftrightarrow> length (frame_columns Y) \<noteq> 1)
   \<and> (is_multilabel (generate_model_final self T Y) \<longleftrightarrow> \<not> is_multilabel (generate_model_y self X Y))
   \<and> (0 < length (frame_columns Y) \<longrightarrow>
        (\<not> is_multilabel (generate_model_final self T Y) \<longleftrightarrow> 1 < length (frame_columns Y))
        \<and> (is_multilabel (generate_model_y self X Y) \<longleftrightarrow> 1 < length (frame_columns Y)))"
  by (cases "frame_columns Y")
     (auto simp: generate_model_final_def generate_model_y_def is_multilabel_def)

theorem C10_model_final_opposite_of_model_y_witness:
  "is_multilabel (generate_model_final example_predictor
      [(''t'', [Num 0, Num 1])] [(''y'', [Num 3, Num 4])])
   \<and> \<not> is_multilabel (generate_model_y example_predictor
      None [(''y'', [Num 3, Num 4])])
   \<and> \<not> is_multilabel (generate_model_final example_predictor
      [(''t'', [Num 0, Num 1])] [(''0'', [Num 3, Num 4]), (''1'', [Num 5, Num 6])])
   \<and> is_multilabel (generate_model_y example_predictor
      None [(''0'', [Num 3, Num 4]), (''1'', [Num 5, Num 6])])"
  using C10_model_final_opposite_of_model_y
          [of example_predictor "[(''t'', [Num 0, Num 1])]"
              "[(''y'', [Num 3, Num 4])]" None]
        C10_model_final_opposite_of_model_y
          [of example_predictor "[(''t'', [Num 0, Num 1])]"
              "[(''0'', [Num 3, Num 4]), (''1'', [Num 5, Num 6])]" None]
  by (simp add: frame_columns_def)

subsection \<open>Predicting before and after fitting\<close>

lemma fit_full_prefix:
  "snd (fit_full ef gts lo hi self df tp) = snd (fit gts lo hi self df tp)"
  by (simp add: fit_full_def fit_def Let_def split: prod.splits sum.splits option.splits)

lemma fit_full_raised:
  "fst (fit gts lo hi self df tp) = Inl e \<Longrightarrow> fst (fit_full ef gts lo hi self df tp) = Inl e"
  by (auto simp add: fit_full_def fit_def Let_def split: prod.splits sum.splits option.splits)

lemma fit_raised_unchanged:
  "fst (fit gts lo hi self df tp) = Inl e \<Longrightarrow>
     causal_model (snd (fit gts lo hi self df tp)) = causal_model self"
  by (auto simp add: fit_def generate_TYX_def Let_def split: prod.splits sum.splits option.splits)

lemma fit_returned_stored:
  "fst (fit gts lo hi self df tp) = Inr u \<Longrightarrow>
     causal_model (snd (fit gts lo hi self df tp)) \<noteq> None"
  by (auto simp add: fit_def Let_def split: prod.splits sum.splits option.splits)

lemma getitems_error: "getitems df ns = Inl e \<Longrightarrow> \<exists>n. e = KeyError n"
  by (induction ns arbitrary: e) (auto simp: getitem_def split: option.splits sum.splits)

lemma traverse_error:
  "traverse f xs = Inl e \<Longrightarrow> \<exists>x \<in> set xs. f x = Inl e"
  by (induction xs arbitrary: e) (auto split: sum.splits)

lemma logit_clip_error: "logit_clip lo hi P = Inl e \<Longrightarrow> e = TypeError"
proof -
  assume "logit_clip lo hi P = Inl e"
  then obtain n c where "logit_clip_series lo hi c = Inl e"
    by (auto simp: logit_clip_def dest!: traverse_error split: sum.splits)
  then have "traverse logit c = Inl e"
    by (auto simp: logit_clip_series_def split: sum.splits)
  then obtain x where "logit x = Inl e" by (auto dest: traverse_error)
  then show ?thesis by (cases x) (auto simp: logit_def)
qed

lemma fit_transform_error:
  "fit_transform f = Inl e \<Longrightarrow> e \<noteq> NotFittedError"
  by (auto simp: fit_transform_def sorted_categories_def Let_def
      split: list.splits sum.splits prod.splits if_splits)

lemma getitem_error: "getitem df n = Inl e \<Longrightarrow> e \<noteq> NotFittedError"
  by (auto simp: getitem_def split: option.splits)

lemma getitems_not_fitted: "getitems df ns = Inl e \<Longrightarrow> e \<noteq> NotFittedError"
  by (auto dest: getitems_error)

lemma select_X_error: "select_X self df = Inl e \<Longrightarrow> e \<noteq> NotFittedError"
  by (auto simp: select_X_def dest: getitems_error split: if_splits sum.splits)

lemma encode_outcome_error:
  "fst (encode_outcome gts lo hi self df tp) = Inl e \<Longrightarrow> e \<noteq> NotFittedError"
  by (auto simp: encode_outcome_def
      dest: getitem_error getitems_error logit_clip_error fit_transform_error
      split: if_splits sum.splits option.splits prod.splits)

lemma generate_TYX_error:
  "fst (generate_TYX gts lo hi self df tp) \<noteq> Inl NotFittedError"
proof
  assume a: "fst (generate_TYX gts lo hi self df tp) = Inl NotFittedError"
  show False
  proof (cases "select_X self df")
    case (Inl e)
    with a select_X_error [OF Inl] show False by (simp add: generate_TYX_def)
  next
    case (Inr X)
    obtain r feat where rf: "encode_outcome gts lo hi self df tp = (r, feat)"
      by (cases "encode_outcome gts lo hi self df tp")
    show False
    proof (cases r)
      case (Inl e)
      with rf have "fst (encode_outcome gts lo hi self df tp) = Inl e" by simp
      from encode_outcome_error [OF this] a Inr rf Inl show False
        by (simp add: generate_TYX_def Let_def)
    next
      case Y: (Inr Y)
      show False
      proof (cases "getitems df [current_intervention_column self]")
        case (Inl e)
        from getitems_not_fitted [OF Inl] a Inr rf Y Inl show False
          by (simp add: generate_TYX_def Let_def)
      next
        case T0: (Inr T0)
        show False
        proof (cases "getitems df [new_intervention_column self]")
          case (Inl e)
          from getitems_not_fitted [OF Inl] a Inr rf Y T0 Inl show False
            by (simp add: generate_TYX_def Let_def)
        next
          case T1: (Inr T1)
          from a Inr rf Y T0 T1 show False
            by (simp add: generate_TYX_def Let_def)
        qed
      qed
    qed
  qed
qed

lemma predict_effect_fitted:
  "causal_model self \<noteq> None \<Longrightarrow>
     fst (predict_effect gts lo hi self df tp) \<noteq> Inl NotFittedError"
  using generate_TYX_error [of gts lo hi self df tp]
  by (auto simp: predict_effect_def split: prod.splits sum.splits)


lemma example_fit_missing_target:
  "fit_full example_estimator_fit get_type_special_no_ag lo hi example_predictor
       example_df_missing_target None =
     (Inl (ValueError ''Input contains NaN''),
      example_predictor\<lparr>causal_model := Some
        (NonParamDML
           (SKLearnTabularWrapper ''t'' ''regression'' (Some [])
              \<lparr>num_gpus = 0, drop_unique = True\<rparr> None)
           (SKLearnTabularWrapper ''y'' ''regression'' (Some [])
              \<lparr>num_gpus = 0, drop_unique = True\<rparr> None)
           (SKLearnMultilabelWrapper [''y''] [''regression''] None
              \<lparr>num_gpus = 0, drop_unique = True\<rparr>)
           None 1 False)\<rparr>)"
proof -
  have tags: "get_type_special_no_ag [Num 1, NA] = ''integer''"
    by (simp add: get_type_special_no_ag_def is_whole_def)
  have tyx: "generate_TYX get_type_special_no_ag lo hi example_predictor
               example_df_missing_target None =
     (Inr ([(''t'', [Num 0, Num 1])], [(''t_new'', [Num 1, Num 1])],
           [(''y'', [Num 1, NA])], None), example_predictor)"
    by (simp add: generate_TYX_def select_X_def encode_outcome_def has_common_causes_def
        example_predictor_def example_df_missing_target_def init_def num_cols_simps
        example_tags tags getitem_def)
  show ?thesis
    unfolding fit_full_def tyx
    by (simp add: generate_model_t_def model_t_holdout_frac_def
        model_t_problem_type_def num_cols_simps example_tags generate_model_y_def
        generate_model_final_def generate_dml_model_def getitem_def frame_columns_def
        xw_col_def ag_args_fit_def has_common_causes_def example_predictor_def init_def
        example_estimator_fit_def frame_all_def isna_def numeral_2_eq_2)
qed

text \<open>
  C3, as stated: a predictor on which \<open>fit\<close> has never completed raises NotFittedError
  in \<open>predict_effect\<close>. The example predictor is fitted once, on a data set whose target
  has a missing value, with an estimator whose own \<open>fit\<close> rejects it: \<open>fit\<close> raises
  ValueError and so does not complete, but the estimator was stored before it was
  fitted. \<open>predict_effect\<close> then passes the not-fitted check and goes on to the effect
  computation, where it fails with another error.
\<close>

theorem C3_failed_estimator_fit_counterexample:
  "fst (fit_full example_estimator_fit get_type_special_no_ag (-10) 10 example_predictor
          example_df_missing_target None) = Inl (ValueError ''Input contains NaN'')
   \<and> causal_model (snd (fit_full example_estimator_fit get_type_special_no_ag (-10) 10
          example_predictor example_df_missing_target None)) \<noteq> None
   \<and> fst (predict_effect get_type_special_no_ag (-10) 10
          (snd (fit_full example_estimator_fit get_type_special_no_ag (-10) 10
                  example_predictor example_df_missing_target None))
          example_df_numeric None) \<noteq> Inl NotFittedError
   \<and> fst (predict_effect get_type_special_no_ag (-10) 10
          (snd (fit_full example_estimator_fit get_type_special_no_ag (-10) 10
                  example_predictor example_df_missing_target None))
          example_df_numeric None) = Inl (NameError ''current_intervention_column'')"
  unfolding example_fit_missing_target
  by (simp add: predict_effect_def generate_TYX_def select_X_def
      encode_outcome_def has_common_causes_def example_predictor_def init_def num_cols_simps
      example_df_numeric_def example_tags getitem_def)

text \<open>
  C3, amended. On a predictor whose causal model is absent, \<open>predict_effect\<close> raises
  NotFittedError for every data set and every probability matrix and leaves the
  predictor as it was: neither the encoding of the data nor the estimator is reached.
  The causal model is absent after \<open>__init__\<close>, and it stays absent through a \<open>fit\<close> that
  raises before the estimator is stored (while the frames or the models are built),
  whatever the estimator's own \<open>fit\<close> would do. A \<open>fit\<close> that gets as far as storing the
  estimator leaves it stored, also when the estimator's own \<open>fit\<close> then raises, and
  \<open>predict_effect\<close> no longer raises NotFittedError.
\<close>

theorem C3_predict_effect_unfitted:
  "(causal_model self = None \<longrightarrow>
      predict_effect gts lo hi self df target_proba = (Inl NotFittedError, self))
   \<and> causal_model (init tgt cur new causes cv alpha) = None
   \<and> (\<forall>e. causal_model self = None \<and> fst (fit gts lo hi self df' tp') = Inl e \<longrightarrow>
          fst (fit_full ef gts lo hi self df' tp') = Inl e
          \<and> causal_model (snd (fit_full ef gts lo hi self df' tp')) = None)
   \<and> (fst (fit gts lo hi self df' tp') = Inr () \<longrightarrow>
          causal_model (snd (fit_full ef gts lo hi self df' tp')) \<noteq> None
          \<and> fst (predict_effect gts lo hi (snd (fit_full ef gts lo hi self df' tp'))
                  df target_proba) \<noteq> Inl NotFittedError)"
proof (intro conjI allI impI)
  assume "causal_model self = None"
  then show "predict_effect gts lo hi self df target_proba = (Inl NotFittedError, self)"
    by (simp add: predict_effect_def)
next
  show "causal_model (init tgt cur new causes cv alpha) = None"
    by (simp add: init_def)
next
  fix e
  assume h: "causal_model self = None \<and> fst (fit gts lo hi self df' tp') = Inl e"
  then show "fst (fit_full ef gts lo hi self df' tp') = Inl e"
    by (simp add: fit_full_raised)
  from h fit_raised_unchanged [of gts lo hi self df' tp' e]
  show "causal_model (snd (fit_full ef gts lo hi self df' tp')) = None"
    by (simp add: fit_full_prefix)
next
  assume h: "fst (fit gts lo hi self df' tp') = Inr ()"
  from fit_returned_stored [OF h]
  show s: "causal_model (snd (fit_full ef gts lo hi self df' tp')) \<noteq> None"
    by (simp add: fit_full_prefix)
  from predict_effect_fitted [OF s]
  show "fst (predict_effect gts lo hi (snd (fit_full ef gts lo hi self df' tp'))
              df target_proba) \<noteq> Inl NotFittedError" .
qed

theorem C3_predict_effect_unfitted_witness:
  "predict_effect get_type_special_no_ag (-10) 10 example_predictor example_df_numeric None
     = (Inl NotFittedError, example_predictor)
   \<and> fst (fit_full example_estimator_fit get_type_special_no_ag (-10) 10 example_predictor
            [(''y'', [Num 1, Num 2])] None) = Inl (KeyError ''t'')
   \<and> predict_effect get_type_special_no_ag (-10) 10
        (snd (fit_full example_estimator_fit get_type_special_no_ag (-10) 10 example_predictor
                [(''y'', [Num 1, Num 2])] None))
        example_df_numeric None
     = (Inl NotFittedError,
        snd (fit_full example_estimator_fit get_type_special_no_ag (-10) 10 example_predictor
               [(''y'', [Num 1, Num 2])] None))"
proof -
  have a: "causal_model example_predictor = None"
    by (simp add: example_predictor_def init_def)
  have b: "fst (fit get_type_special_no_ag (-10) 10 example_predictor
                  [(''y'', [Num 1, Num 2])] None) = Inl (KeyError ''t'')"
    by (simp add: fit_def generate_TYX_def select_X_def encode_outcome_def
        has_common_causes_def example_predictor_def init_def num_cols_simps example_tags
        getitem_def)
  note t = C3_predict_effect_unfitted [of example_predictor get_type_special_no_ag "-10" 10
      example_df_numeric None _ _ _ _ _ _ "[(''y'', [Num 1, Num 2])]" None
      example_estimator_fit]
  from t a b have c: "fst (fit_full example_estimator_fit get_type_special_no_ag (-10) 10
        example_predictor [(''y'', [Num 1, Num 2])] None) = Inl (KeyError ''t'')"
    and d: "causal_model (snd (fit_full example_estimator_fit get_type_special_no_ag (-10) 10
        example_predictor [(''y'', [Num 1, Num 2])] None)) = None"
    by blast+
  from C3_predict_effect_unfitted [of
      "snd (fit_full example_estimator_fit get_type_special_no_ag (-10) 10
              example_predictor [(''y'', [Num 1, Num 2])] None)"
      get_type_special_no_ag "-10" 10 example_df_numeric None] d
  have e: "predict_effect get_type_special_no_ag (-10) 10
        (snd (fit_full example_estimator_fit get_type_special_no_ag (-10) 10 example_predictor
                [(''y'', [Num 1, Num 2])] None))
        example_df_numeric None
     = (Inl NotFittedError,
        snd (fit_full example_estimator_fit get_type_special_no_ag (-10) 10 example_predictor
               [(''y'', [Num 1, Num 2])] None))"
    by blast
  from t a have f: "predict_effect get_type_special_no_ag (-10) 10 example_predictor
      example_df_numeric None = (Inl NotFittedError, example_predictor)"
    by blast
  from f c e show ?thesis by blast
qed

text \<open>
  C2. The claim: after a successful fit the result of \<open>predict_effect\<close> has one row per
  input row, in input order. After fitting the example predictor on the two-row numeric
  data set, \<open>predict_effect\<close> on the same data raises NameError at the first use of the
  bare name \<open>current_intervention_column\<close> and returns no result at all.
\<close>

theorem C2_predict_effect_fitted_raises:
  "fst (fit get_type_special_no_ag lo hi example_predictor example_df_numeric None) = Inr ()
   \<and> fst (predict_effect get_type_special_no_ag lo hi
            (snd (fit get_type_special_no_ag lo hi example_predictor example_df_numeric None))
            example_df_numeric None)
      = Inl (NameError ''current_intervention_column'')"
  unfolding example_fit_numeric
  by (simp add: predict_effect_def generate_TYX_def select_X_def
      encode_outcome_def has_common_causes_def example_predictor_def init_def num_cols_simps
      example_df_numeric_def example_tags getitem_def)

theorem C2_predict_effect_fitted_raises_witness:
  "\<not> (\<exists>rows. fst (predict_effect get_type_special_no_ag (-10) 10
            (snd (fit get_type_special_no_ag (-10) 10 example_predictor example_df_numeric None))
            example_df_numeric None) = Inr rows)"
  using C2_predict_effect_fitted_raises [of "-10" 10] by simp

lemma logit_prob:
  "is_prob x \<Longrightarrow> \<exists>v. logit x = Inr v \<and> v \<noteq> NaN"
  by (cases x) (auto simp: is_prob_def logit_def)

lemma clip_in_range:
  "lo \<le> hi \<Longrightarrow> v \<noteq> NaN \<Longrightarrow> in_clip_range lo hi (clip lo hi v)"
  by (cases v) (auto simp: clip_def in_clip_range_def Let_def min_def max_def)

lemma traverse_logit_prob:
  "list_all is_prob c \<Longrightarrow>
     \<exists>vs. traverse logit c = Inr vs \<and> length vs = length c \<and> list_all (\<lambda>v. v \<noteq> NaN) vs"
proof (induction c)
  case Nil
  then show ?case by simp
next
  case (Cons x c)
  then obtain vs where vs: "traverse logit c = Inr vs" "length vs = length c"
      "list_all (\<lambda>v. v \<noteq> NaN) vs"
    by auto
  from Cons.prems obtain v where v: "logit x = Inr v" "v \<noteq> NaN"
    using logit_prob by auto
  from vs v show ?case by simp
qed

lemma logit_clip_series_prob:
  assumes "lo \<le> hi" and "list_all is_prob c"
  shows "\<exists>c'. logit_clip_series lo hi c = Inr c' \<and> length c' = length c
              \<and> list_all (in_clip_range lo hi) c'"
proof -
  from traverse_logit_prob [OF assms(2)] obtain vs where
    vs: "traverse logit c = Inr vs" "length vs = length c" "list_all (\<lambda>v. v \<noteq> NaN) vs"
    by auto
  have "list_all (in_clip_range lo hi) (map (clip lo hi) vs)"
    using vs(3) assms(1) by (induction vs) (auto simp: clip_in_range)
  with vs show ?thesis by (simp add: logit_clip_series_def)
qed

lemma logit_clip_prob:
  assumes "lo \<le> hi" and "frame_all is_prob P"
  shows "\<exists>Y. logit_clip lo hi P = Inr Y \<and> frame_columns Y = frame_columns P
             \<and> frame_all (in_clip_range lo hi) Y"
  using assms(2)
proof (induction P)
  case Nil
  then show ?case by (simp add: logit_clip_def frame_all_def frame_columns_def)
next
  case (Cons nc P)
  obtain n c where nc: "nc = (n, c)" by (cases nc)
  from Cons.prems nc have pc: "list_all is_prob c" and pP: "frame_all is_prob P"
    by (simp_all add: frame_all_def)
  from Cons.IH [OF pP] obtain Y where Y: "logit_clip lo hi P = Inr Y"
      "frame_columns Y = frame_columns P" "frame_all (in_clip_range lo hi) Y"
    by auto
  from logit_clip_series_prob [OF assms(1) pc] obtain c' where
    c': "logit_clip_series lo hi c = Inr c'" "list_all (in_clip_range lo hi) c'"
    by auto
  from Y c' nc show ?case
    by (simp add: logit_clip_def frame_all_def frame_columns_def)
qed

lemma one_hot_prob: "frame_all is_prob (one_hot cats c)"
proof -
  have "list_all is_prob (map (indicator cat) c)" for cat
    by (induction c) (simp_all add: indicator_def is_prob_def)
  then have "list_all (\<lambda>(n, col). list_all is_prob col)
               (map (\<lambda>(j, cat). (str_nat j, map (indicator cat) c)) xs)" for xs
    by (induction xs) auto
  then show ?thesis
    by (simp add: frame_all_def one_hot_def)
qed

lemma fit_transform_prob:
  "fit_transform f = Inr (enc, M) \<Longrightarrow> frame_all is_prob M"
  by (auto simp: fit_transform_def one_hot_prob split: list.splits sum.splits prod.splits)


lemma encode_outcome_categorical:
  assumes "target self \<notin> set (num_cols gts df)" and "lo \<le> hi"
    and "valid_proba target_proba"
    and "fst (encode_outcome gts lo hi self df target_proba) = Inr Y"
  shows "frame_all (in_clip_range lo hi) Y"
proof (cases target_proba)
  case (Some P)
  with assms(3) have "frame_all is_prob P" by (simp add: valid_proba_def)
  from logit_clip_prob [OF assms(2) this] assms(1,4) Some show ?thesis
    by (auto simp: encode_outcome_def)
next
  case None
  from assms(1,4) None obtain f enc M where
    M: "fit_transform f = Inr (enc, M)" and Y: "logit_clip lo hi M = Inr Y"
    by (auto simp: encode_outcome_def split: sum.splits prod.splits)
  from fit_transform_prob [OF M] have "frame_all is_prob M" .
  from logit_clip_prob [OF assms(2) this] Y show ?thesis by auto
qed

lemma generate_TYX_outcome:
  "generate_TYX gts lo hi self df tp = (Inr (T0, T1, Y, X), self') \<Longrightarrow>
     fst (encode_outcome gts lo hi self df tp) = Inr Y
     \<and> self' = self\<lparr>outcome_featurizer := snd (encode_outcome gts lo hi self df tp)\<rparr>"
  by (auto simp: generate_TYX_def Let_def split: sum.splits prod.splits)

subsection \<open>Encoded outcome\<close>

text \<open>
  C6. For a target that is not among the numeric columns, with clip bounds in order and
  a supplied matrix (if any) that holds probabilities, every entry of the outcome that
  \<open>_generate_TYX\<close> returns is a number within the clip bounds, the entries 0 and 1
  included, whose logits are infinite before clipping. With a supplied matrix
  and the confounder and treatment frames available, the method does return.
\<close>

theorem C6_encoded_logits_within_clip_range:
  assumes "target self \<notin> set (num_cols gts df)" and "lo \<le> hi"
    and "valid_proba target_proba"
  shows "(\<forall>T0 T1 Y X self'.
            generate_TYX gts lo hi self df target_proba = (Inr (T0, T1, Y, X), self')
            \<longrightarrow> frame_all (in_clip_range lo hi) Y)
       \<and> (\<forall>P X T0 T1.
            target_proba = Some P \<and> select_X self df = Inr X
            \<and> getitems df [current_intervention_column self] = Inr T0
            \<and> getitems df [new_intervention_column self] = Inr T1
            \<longrightarrow> (\<exists>Y. fst (generate_TYX gts lo hi self df target_proba) = Inr (T0, T1, Y, X)
                      \<and> frame_columns Y = frame_columns P
                      \<and> frame_all (in_clip_range lo hi) Y))"
proof (intro conjI allI impI)
  fix T0 T1 Y X self'
  assume "generate_TYX gts lo hi self df target_proba = (Inr (T0, T1, Y, X), self')"
  then have "fst (encode_outcome gts lo hi self df target_proba) = Inr Y"
    by (simp add: generate_TYX_outcome)
  with assms show "frame_all (in_clip_range lo hi) Y"
    by (rule encode_outcome_categorical)
next
  fix P X T0 T1
  assume h: "target_proba = Some P \<and> select_X self df = Inr X
            \<and> getitems df [current_intervention_column self] = Inr T0
            \<and> getitems df [new_intervention_column self] = Inr T1"
  with assms(3) have "frame_all is_prob P" by (simp add: valid_proba_def)
  from logit_clip_prob [OF assms(2) this] obtain Y where
    Y: "logit_clip lo hi P = Inr Y" "frame_columns Y = frame_columns P"
       "frame_all (in_clip_range lo hi) Y"
    by auto
  have "fst (generate_TYX gts lo hi self df target_proba) = Inr (T0, T1, Y, X)"
    using h Y(1) assms(1) by (simp add: generate_TYX_def encode_outcome_def Let_def)
  with Y show "\<exists>Y. fst (generate_TYX gts lo hi self df target_proba) = Inr (T0, T1, Y, X)
                      \<and> frame_columns Y = frame_columns P
                      \<and> frame_all (in_clip_range lo hi) Y"
    by blast
qed

lemma str_nat_digits:
  "str_nat 0 = ''0''" "str_nat (Suc 0) = ''1''" "str_nat 1 = ''1''"
  by (simp_all add: str_nat.simps digit_char_def)

lemma example_TYX_cat_target:
  "generate_TYX get_type_special_no_ag (-10) 10 example_predictor example_df_cat_target None =
     (Inr ([(''t'', [Num 0, Num 1, Num 1])], [(''t_new'', [Num 1, Num 1, Num 1])],
           [(''0'', [Num 10, Num (-10), Num 10]), (''1'', [Num (-10), Num 10, Num (-10)])],
           None),
      example_predictor\<lparr>outcome_featurizer :=
        Some (OneHotEncoder (Some [Str ''no'', Str ''yes'']))\<rparr>)"
proof -
  have tags: "get_type_special_no_ag [Str ''no'', Str ''yes'', Str ''no''] = ''category''"
    "get_type_special_no_ag [Num 0, Num 1, Num 1] = ''integer''"
    "get_type_special_no_ag [Num 1, Num 1, Num 1] = ''integer''"
    by (simp_all add: get_type_special_no_ag_def is_whole_def is_number_def)
  have cats: "sorted_categories [Str ''no'', Str ''yes'', Str ''no'']
                = Inr [Str ''no'', Str ''yes'']"
    by (simp add: sorted_categories_def)
  have oh: "one_hot [Str ''no'', Str ''yes''] [Str ''no'', Str ''yes'', Str ''no'']
              = [(''0'', [Num 1, Num 0, Num 1]), (''1'', [Num 0, Num 1, Num 0])]"
    by (simp add: one_hot_def indicator_def str_nat_digits)
  have lc: "logit_clip (-10) 10 [(''0'', [Num 1, Num 0, Num 1]), (''1'', [Num 0, Num 1, Num 0])]
              = Inr [(''0'', [Num 10, Num (-10), Num 10]), (''1'', [Num (-10), Num 10, Num (-10)])]"
    by (simp add: logit_clip_def logit_clip_series_def logit_def clip_def)
  show ?thesis
    by (simp add: generate_TYX_def select_X_def encode_outcome_def has_common_causes_def
        example_predictor_def example_df_cat_target_def init_def num_cols_simps tags
        getitem_def fit_transform_def cats oh lc)
qed

theorem C6_encoded_logits_within_clip_range_witness:
  "generate_TYX get_type_special_no_ag (-10) 10 example_predictor example_df_cat_target None =
     (Inr ([(''t'', [Num 0, Num 1, Num 1])], [(''t_new'', [Num 1, Num 1, Num 1])],
           [(''0'', [Num 10, Num (-10), Num 10]), (''1'', [Num (-10), Num 10, Num (-10)])],
           None),
      example_predictor\<lparr>outcome_featurizer :=
        Some (OneHotEncoder (Some [Str ''no'', Str ''yes'']))\<rparr>)
   \<and> frame_all (in_clip_range (-10) 10)
       [(''0'', [Num 10, Num (-10), Num 10]), (''1'', [Num (-10), Num 10, Num (-10)])]"
proof -
  have a: "target example_predictor
             \<notin> set (num_cols get_type_special_no_ag example_df_cat_target)"
    by (simp add: example_predictor_def init_def example_df_cat_target_def num_cols_simps
        get_type_special_no_ag_def is_whole_def is_number_def)
  have b: "(-10::real) \<le> 10" by simp
  have c: "valid_proba None" by (simp add: valid_proba_def)
  from C6_encoded_logits_within_clip_range [OF a b c] example_TYX_cat_target
  show ?thesis by blast
qed







subsection \<open>Holdout fraction of the treatment model\<close>

lemma unique_length: "length (unique c) \<le> length c"
  by (simp add: unique_def) (metis length_remdups_leq length_rev)

lemma unique_nonempty: "c \<noteq> [] \<Longrightarrow> unique c \<noteq> []"
  by (simp add: unique_def)

lemma holdout_multiclass:
  assumes "gts c \<noteq> ''numeric''" and "gts c \<noteq> ''integer''"
  shows "model_t_holdout_frac gts self [(current_intervention_column self, c)] =
           (if c = [] then Inl ZeroDivisionError
            else Inr (Some (real (length (unique c)) / real (length c))))"
  using assms
  by (simp add: model_t_holdout_frac_def model_t_problem_type_def num_cols_simps
      getitem_def frame_len_def)

lemma holdout_regression:
  assumes "gts c = ''numeric'' \<or> gts c = ''integer''"
  shows "model_t_holdout_frac gts self [(current_intervention_column self, c)] = Inr None"
  using assms
  by (auto simp: model_t_holdout_frac_def model_t_problem_type_def num_cols_simps)

text \<open>
  C5, as stated, says that the holdout fraction of a multiclass treatment model is bounded
  by the validation-split convention of the AutoML library. The source applies no bound:
  for a three-row treatment column with three distinct values the fraction is 1, the
  whole data set.
\<close>

theorem C5_holdout_not_bounded_counterexample:
  "\<not> (\<exists>h. model_t_holdout_frac get_type_special_no_ag example_predictor
              [(''t'', [Str ''a'', Str ''b'', Str ''c''])] = Inr (Some h) \<and> h < 1)"
proof -
  have "model_t_holdout_frac get_type_special_no_ag example_predictor
          [(''t'', [Str ''a'', Str ''b'', Str ''c''])] = Inr (Some 1)"
    by (simp add: model_t_holdout_frac_def model_t_problem_type_def num_cols_simps
        example_tags getitem_def frame_len_def unique_def example_predictor_def init_def)
  then show ?thesis by simp
qed

text \<open>
  C5, amended. For the one-column treatment frame that \<open>fit\<close> passes: when the column is
  not classified numeric or integer and is not empty the treatment model is multiclass
  and its holdout fraction is the number of distinct values divided by the number of
  rows, which lies in (0, 1]; on an empty column the division raises
  ZeroDivisionError; when the column is numeric or integer the model is a regression
  and no holdout fraction is set. For a fixed number of rows the fraction does not
  decrease when the number of distinct values grows.
\<close>

theorem C5_holdout_fraction:
  "(gts c \<noteq> ''numeric'' \<and> gts c \<noteq> ''integer'' \<and> c \<noteq> [] \<longrightarrow>
      generate_model_t gts self X [(current_intervention_column self, c)]
        = Inr (SKLearnTabularWrapper ''t'' ''multiclass'' (Some (xw_col X)) (ag_args_fit self)
                 (Some (real (length (unique c)) / real (length c))))
      \<and> 0 < real (length (unique c)) / real (length c)
      \<and> real (length (unique c)) / real (length c) \<le> 1)
   \<and> (gts c \<noteq> ''numeric'' \<and> gts c \<noteq> ''integer'' \<and> c = [] \<longrightarrow>
      generate_model_t gts self X [(current_intervention_column self, c)]
        = Inl ZeroDivisionError)
   \<and> (gts c = ''numeric'' \<or> gts c = ''integer'' \<longrightarrow>
      generate_model_t gts self X [(current_intervention_column self, c)]
        = Inr (SKLearnTabularWrapper ''t'' ''regression'' (Some (xw_col X)) (ag_args_fit self)
                 None))
   \<and> (\<forall>c'. length c' = length c \<and> length (unique c) \<le> length (unique c') \<longrightarrow>
         real (length (unique c)) / real (length c)
           \<le> real (length (unique c')) / real (length c'))"
proof (intro conjI impI allI)
  assume h: "gts c \<noteq> ''numeric'' \<and> gts c \<noteq> ''integer'' \<and> c \<noteq> []"
  then show "generate_model_t gts self X [(current_intervention_column self, c)]
        = Inr (SKLearnTabularWrapper ''t'' ''multiclass'' (Some (xw_col X)) (ag_args_fit self)
                 (Some (real (length (unique c)) / real (length c))))"
    by (simp add: generate_model_t_def holdout_multiclass model_t_problem_type_def
        num_cols_simps)
  from h have "0 < length c" by simp
  moreover from h have "0 < length (unique c)" by (simp add: unique_nonempty)
  ultimately show "0 < real (length (unique c)) / real (length c)" by simp
  from unique_length [of c] \<open>0 < length c\<close>
  show "real (length (unique c)) / real (length c) \<le> 1" by simp
next
  assume "gts c \<noteq> ''numeric'' \<and> gts c \<noteq> ''integer'' \<and> c = []"
  then show "generate_model_t gts self X [(current_intervention_column self, c)]
        = Inl ZeroDivisionError"
    by (auto simp: generate_model_t_def model_t_holdout_frac_def model_t_problem_type_def
        num_cols_simps getitem_def frame_len_def)
next
  assume h: "gts c = ''numeric'' \<or> gts c = ''integer''"
  then have "current_intervention_column self
               \<in> set (num_cols gts [(current_intervention_column self, c)])"
    by (auto simp: num_cols_simps)
  with h show "generate_model_t gts self X [(current_intervention_column self, c)]
        = Inr (SKLearnTabularWrapper ''t'' ''regression'' (Some (xw_col X)) (ag_args_fit self)
                 None)"
    by (simp add: generate_model_t_def holdout_regression model_t_problem_type_def)
next
  fix c'
  assume "length c' = length c \<and> length (unique c) \<le> length (unique c')"
  then show "real (length (unique c)) / real (length c)
           \<le> real (length (unique c')) / real (length c')"
    by (simp add: divide_right_mono)
qed

theorem C5_holdout_fraction_witness:
  "generate_model_t get_type_special_no_ag example_predictor None
     [(''t'', [Str ''a'', Str ''a'', Str ''b'', Str ''b''])]
     = Inr (SKLearnTabularWrapper ''t'' ''multiclass'' (Some [])
              \<lparr>num_gpus = 0, drop_unique = True\<rparr> (Some (1 / 2)))
   \<and> generate_model_t get_type_special_no_ag example_predictor None [(''t'', [Num 0, Num 1])]
     = Inr (SKLearnTabularWrapper ''t'' ''regression'' (Some [])
              \<lparr>num_gpus = 0, drop_unique = True\<rparr> None)"
proof -
  have t: "get_type_special_no_ag [Str ''a'', Str ''a'', Str ''b'', Str ''b''] = ''category''"
    by (simp add: get_type_special_no_ag_def is_whole_def is_number_def)
  have u: "length (unique [Str ''a'', Str ''a'', Str ''b'', Str ''b'']) = 2"
    by (simp add: unique_def)
  have n: "current_intervention_column example_predictor = ''t''"
    by (simp add: example_predictor_def init_def)
  from C5_holdout_fraction [of get_type_special_no_ag
      "[Str ''a'', Str ''a'', Str ''b'', Str ''b'']" example_predictor None]
    C5_holdout_fraction [of get_type_special_no_ag "[Num 0, Num 1]" example_predictor None]
  show ?thesis
    by (simp add: t u n example_tags xw_col_def ag_args_fit_def example_predictor_def init_def)
qed

lemma collect_priors_bad:
  "list_ex bad_prior ps \<Longrightarrow> collect_priors ps pv = Inl categorical_prior_error"
  by (induction ps arbitrary: pv) (auto simp: bad_prior_def)

lemma collect_priors_good:
  "\<not> list_ex bad_prior ps \<Longrightarrow> \<exists>pv'. collect_priors ps pv = Inr pv'"
  by (induction ps arbitrary: pv) (auto simp: bad_prior_def)

subsection \<open>Priors of the Bayesian regression task\<close>

text \<open>
  C9, as stated, says that every run whose priors hold a prior on a categorical column
  with a degree other than one raises ValueError. The data validation comes first: with
  a critical check the run returns its failure result and never reads the priors.
\<close>

theorem C9_critical_validation_counterexample:
  "list_ex bad_prior [example_bad_prior]
   \<and> run [Some example_critical_check] (Some [example_bad_prior]) 20
       = (Inr (FAILURE [example_critical_check]), [])
   \<and> fst (run [Some example_critical_check] (Some [example_bad_prior]) 20)
       \<noteq> Inl categorical_prior_error"
  by (simp add: run_def bad_prior_def example_bad_prior_def example_critical_check_def)

text \<open>
  C9, amended. A run without a critical validation check whose priors hold a prior on a
  categorical column (control is not None) with a degree other than one raises
  ValueError and starts no fitting work; a run with a critical check returns the failure
  result, also with no fitting work; a run with neither goes on to the fitting work.
\<close>

theorem C9_bad_prior_fails_fast:
  "(\<not> has_critical data_validation_results \<and> list_ex bad_prior ps \<longrightarrow>
      run data_validation_results (Some ps) validation_split
        = (Inl categorical_prior_error, []))
   \<and> (has_critical data_validation_results \<longrightarrow>
      run data_validation_results priors validation_split
        = (Inr (FAILURE [x. Some x \<leftarrow> data_validation_results]), []))
   \<and> (\<not> has_critical data_validation_results \<and> \<not> list_ex bad_prior ps \<longrightarrow>
      (\<exists>pv. run data_validation_results (Some ps) validation_split
         = (Inr (SUCCESS pv [x. Some x \<leftarrow> data_validation_results]),
            fitting_work validation_split))
      \<and> fitting_work validation_split \<noteq> [])"
proof (intro conjI impI)
  assume "\<not> has_critical data_validation_results \<and> list_ex bad_prior ps"
  then show "run data_validation_results (Some ps) validation_split
        = (Inl categorical_prior_error, [])"
    by (simp add: run_def has_critical_def collect_priors_bad)
next
  assume "has_critical data_validation_results"
  then show "run data_validation_results priors validation_split
        = (Inr (FAILURE [x. Some x \<leftarrow> data_validation_results]), [])"
    by (simp add: run_def has_critical_def)
next
  assume h: "\<not> has_critical data_validation_results \<and> \<not> list_ex bad_prior ps"
  then obtain pv where "collect_priors ps Map.empty = Inr pv"
    using collect_priors_good by blast
  with h show "\<exists>pv. run data_validation_results (Some ps) validation_split
         = (Inr (SUCCESS pv [x. Some x \<leftarrow> data_validation_results]),
            fitting_work validation_split)"
    by (simp add: run_def has_critical_def)
next
  show "fitting_work validation_split \<noteq> []" by (simp add: fitting_work_def)
qed

theorem C9_bad_prior_fails_fast_witness:
  "run [] (Some [example_bad_prior]) 20 = (Inl categorical_prior_error, [])
   \<and> run [Some example_critical_check] None 20 = (Inr (FAILURE [example_critical_check]), [])"
proof -
  have a: "\<not> has_critical []" by (simp add: has_critical_def)
  have b: "list_ex bad_prior [example_bad_prior]"
    by (simp add: bad_prior_def example_bad_prior_def)
  have c: "has_critical [Some example_critical_check]"
    by (simp add: has_critical_def example_critical_check_def)
  from C9_bad_prior_fails_fast [of "[]" "[example_bad_prior]" 20 None] a b
    C9_bad_prior_fails_fast [of "[Some example_critical_check]" "[]" 20 None] c
  show ?thesis by simp
qed

lemma extract_examples:
  "extract_percent ''5%'' = Some ''5''"
  "extract_percent ''10%'' = Some ''10''"
  "extract_percent ''abc'' = None"
  "extract_percent ''def'' = None"
  "extract_percent '' 12.5 % '' = Some ''12.5''"
  "extract_percent ''12.%'' = None"
  "extract_percent ''%'' = None"
  by (simp_all add: extract_percent_def is_blank_def is_digit_def Let_def)

lemma py_float_examples:
  "py_float ''5'' = 5" "py_float ''10'' = 10" "py_float ''12.5'' = 25 / 2"
  by (simp_all add: py_float_def dec_val_def digit_val_def is_digit_def Let_def)

lemma matches_complement:
  "length (filter (\<lambda>e. e = None) (extracted x)) + matches x = length x"
proof -
  have "length (filter (\<lambda>e. e = None) (extracted x))
          + length (filter (\<lambda>e. \<not> e = None) (extracted x)) = length (extracted x)"
    by (rule sum_length_filter_compl)
  then show ?thesis by (simp add: matches_def extracted_def)
qed

subsection \<open>Percentage parsing\<close>

text \<open>
  C4, as stated, says that a column converts when at least half of its non-null cells
  match. In the column of the two cells "5%" and "abc" exactly half match, and the
  source leaves the column as it is.
\<close>

theorem C4_half_matching_counterexample:
  "2 * matches [Some ''5%'', Some ''abc''] = non_null [Some ''5%'', Some ''abc'']
   \<and> transform_column [Some ''5%'', Some ''abc''] = Untouched [Some ''5%'', Some ''abc'']
   \<and> spec_transform_column [Some ''5%'', Some ''abc''] = Converted [Some 5, None]
   \<and> transform_column [Some ''5%'', Some ''abc'']
       \<noteq> spec_transform_column [Some ''5%'', Some ''abc'']"
  by (simp add: transform_column_def spec_transform_column_def parsed_rate_check_def
      extracted_def extract_examples matches_def non_null_def as_floats_def
      py_float_examples)

text \<open>
  C4, amended. A column is converted exactly when more than half of all its cells, null
  cells included, match the pattern: then every matching cell becomes its number and
  every other cell becomes missing; otherwise the column is left untouched. The column
  "5%", "10%", "abc" converts to 5, 10, missing, and the column "5%", "abc", "def" is
  left unconverted.
\<close>

theorem C4_percentage_parsing:
  "transform_column x =
     (if length x < 2 * matches x then Converted (as_floats (extracted x)) else Untouched x)
   \<and> transform_column [Some ''5%'', Some ''10%'', Some ''abc'']
       = Converted [Some 5, Some 10, None]
   \<and> transform_column [Some ''5%'', Some ''abc'', Some ''def'']
       = Untouched [Some ''5%'', Some ''abc'', Some ''def'']"
proof (intro conjI)
  have "parsed_rate_check (extracted x) (1 / 2) \<longleftrightarrow> \<not> length x < 2 * matches x"
  proof -
    have "parsed_rate_check (extracted x) (1 / 2)
            \<longleftrightarrow> length x \<le> 2 * length (filter (\<lambda>e. e = None) (extracted x))"
    proof -
      have "length (extracted x) = length x" by (simp add: extracted_def)
      then have "parsed_rate_check (extracted x) (1 / 2)
            \<longleftrightarrow> real (length x) \<le> real (2 * length (filter (\<lambda>e. e = None) (extracted x)))"
        by (simp add: parsed_rate_check_def field_simps)
      then show ?thesis by (simp only: of_nat_le_iff)
    qed
    with matches_complement [of x] show ?thesis by arith
  qed
  then show "transform_column x =
     (if length x < 2 * matches x then Converted (as_floats (extracted x)) else Untouched x)"
    by (simp add: transform_column_def)
next
  show "transform_column [Some ''5%'', Some ''10%'', Some ''abc'']
       = Converted [Some 5, Some 10, None]"
    by (simp add: transform_column_def parsed_rate_check_def extracted_def extract_examples
        as_floats_def py_float_examples)
next
  show "transform_column [Some ''5%'', Some ''abc'', Some ''def'']
       = Untouched [Some ''5%'', Some ''abc'', Some ''def'']"
    by (simp add: transform_column_def parsed_rate_check_def extracted_def extract_examples
       )
qed

theorem C4_percentage_parsing_witness:
  "transform_column [Some ''5%'', None, None] = Untouched [Some ''5%'', None, None]
   \<and> transform_column [Some '' 12.5 % '', Some ''5%'', None]
       = Converted [Some (25 / 2), Some 5, None]"
proof -
  have a: "matches [Some ''5%'', None, None] = 1"
    by (simp add: matches_def extracted_def extract_examples)
  have b: "matches [Some '' 12.5 % '', Some ''5%'', None] = 2"
    by (simp add: matches_def extracted_def extract_examples)
  from C4_percentage_parsing [of "[Some ''5%'', None, None]"]
    C4_percentage_parsing [of "[Some '' 12.5 % '', Some ''5%'', None]"]
  show ?thesis
    by (simp add: a b as_floats_def extracted_def extract_examples
        py_float_examples)
qed

subsection \<open>Imputation\<close>





























lemma map_pair_cong:
  "(\<And>n c. (n, c) \<in> set df \<Longrightarrow> f n c = g n c) \<Longrightarrow>
     map (\<lambda>(n, c). f n c) df = map (\<lambda>(n, c). g n c) df"
  by (induction df) auto































end
